theory Spec2Isabelle
  imports Complex_Main
begin

section \<open>Turtle's Adventure: the simulation core of turtle\_adventure.py\<close>

text \<open>
  The embedding follows \<^verbatim>\<open>turtle_adventure.py\<close> class by class. Python numbers
  (\<^verbatim>\<open>int\<close> and \<^verbatim>\<open>float\<close>) are read as real numbers, so \<^verbatim>\<open>/\<close> is exact
  division and \<^verbatim>\<open>math.sqrt\<close>, \<^verbatim>\<open>math.cos\<close>, \<^verbatim>\<open>math.sin\<close> are the real
  functions; rounding of IEEE doubles is not modelled. The screen dimensions stay
  integers, because the source divides them with \<^verbatim>\<open>//\<close>. Canvas item ids and all
  drawing (\<^verbatim>\<open>create\<close>, \<^verbatim>\<open>render\<close>, \<^verbatim>\<open>delete\<close>) are left out.
\<close>

subsection \<open>Library functions\<close>

text \<open>
  \<^verbatim>\<open>math.atan2(y, x)\<close> over the reals (there are no signed zeros):
  the angle in \<open>(-\<pi>, \<pi>]\<close> of the point \<open>(x, y)\<close>, and \<open>0\<close> at the origin.
\<close>

definition atan2 :: "real \<Rightarrow> real \<Rightarrow> real" where
  "atan2 y x =
     (if 0 < x then arctan (y / x)
      else if x < 0 \<and> 0 \<le> y then arctan (y / x) + pi
      else if x < 0 then arctan (y / x) - pi
      else if 0 < y then pi / 2
      else if y < 0 then - (pi / 2)
      else 0)"

text \<open>
  The part of \<^verbatim>\<open>turtle.RawTurtle\<close> that \<^verbatim>\<open>Player\<close> uses: a position and a
  heading. The heading is kept in radians; \<^verbatim>\<open>towards\<close> is the direction of the
  line from the turtle to a point, \<^verbatim>\<open>forward\<close> moves along the heading and
  \<^verbatim>\<open>distance\<close> is the Euclidean distance. This is the library's documented
  behaviour in exact arithmetic; its conversion to degrees and its rounding are left out.
\<close>

record RawTurtle =
  xcor :: real
  ycor :: real
  heading :: real

definition towards :: "RawTurtle \<Rightarrow> real \<Rightarrow> real \<Rightarrow> real" where
  "towards t px py = atan2 (py - ycor t) (px - xcor t)"

definition setheading :: "real \<Rightarrow> RawTurtle \<Rightarrow> RawTurtle" where
  "setheading a t = t\<lparr>heading := a\<rparr>"

definition forward :: "real \<Rightarrow> RawTurtle \<Rightarrow> RawTurtle" where
  "forward d t = t\<lparr>xcor := xcor t + d * cos (heading t), ycor := ycor t + d * sin (heading t)\<rparr>"

definition distance :: "RawTurtle \<Rightarrow> real \<Rightarrow> real \<Rightarrow> real" where
  "distance t px py = sqrt ((px - xcor t)\<^sup>2 + (py - ycor t)\<^sup>2)"

definition setx :: "real \<Rightarrow> RawTurtle \<Rightarrow> RawTurtle" where
  "setx v t = t\<lparr>xcor := v\<rparr>"

definition sety :: "real \<Rightarrow> RawTurtle \<Rightarrow> RawTurtle" where
  "sety v t = t\<lparr>ycor := v\<rparr>"

subsection \<open>Game elements\<close>

text \<open>
  \<^verbatim>\<open>GameElement\<close> comes from \<^verbatim>\<open>gamelib\<close>; the source uses its mutable
  coordinates \<^verbatim>\<open>x\<close> and \<^verbatim>\<open>y\<close>. A constructor below takes the freshly built
  base object as its argument \<open>ge\<close>, since the coordinates a new element starts with
  are set by \<^verbatim>\<open>gamelib\<close>.
\<close>

record GameElement =
  elem_x :: real
  elem_y :: real

record Waypoint = GameElement +
  active :: bool

definition Waypoint_init :: "GameElement \<Rightarrow> Waypoint" where
  "Waypoint_init ge = \<lparr>elem_x = elem_x ge, elem_y = elem_y ge, active = False\<rparr>"

definition activate :: "real \<Rightarrow> real \<Rightarrow> Waypoint \<Rightarrow> Waypoint" where
  "activate px py w = w\<lparr>active := True, elem_x := px, elem_y := py\<rparr>"

definition deactivate :: "Waypoint \<Rightarrow> Waypoint" where
  "deactivate w = w\<lparr>active := False\<rparr>"

record Home = GameElement +
  home_size :: real

definition Home_init :: "real \<times> real \<Rightarrow> real \<Rightarrow> Home" where
  "Home_init pos sz = \<lparr>elem_x = fst pos, elem_y = snd pos, home_size = sz\<rparr>"

definition contains :: "Home \<Rightarrow> real \<Rightarrow> real \<Rightarrow> bool" where
  "contains h px py =
     (let x1 = elem_x h - home_size h / 2; x2 = elem_x h + home_size h / 2;
          y1 = elem_y h - home_size h / 2; y2 = elem_y h + home_size h / 2
      in x1 \<le> px \<and> px \<le> x2 \<and> y1 \<le> py \<and> py \<le> y2)"

text \<open>
  \<^verbatim>\<open>Player\<close> overrides \<^verbatim>\<open>x\<close> and \<^verbatim>\<open>y\<close> by the coordinates of its turtle, so
  the record holds the speed and the turtle only.
\<close>

record Player =
  speed :: real
  turtle :: RawTurtle

datatype error = InvalidConfiguration

text \<open>
  A constructor returns \<open>error + _\<close>, so that a rejected configuration would be the
  value \<open>Inl InvalidConfiguration\<close>. \<^verbatim>\<open>Player.__init__\<close> and \<^verbatim>\<open>Enemy.__init__\<close>
  store their arguments and contain no \<^verbatim>\<open>raise\<close>; the constructors of the four
  enemy classes call \<^verbatim>\<open>Enemy.__init__\<close> first and then set their own fields.
\<close>

definition Player_init :: "RawTurtle \<Rightarrow> real \<Rightarrow> error + Player" where
  "Player_init t sp = Inr \<lparr>speed = sp, turtle = t\<rparr>"

definition player_x :: "Player \<Rightarrow> real" where
  "player_x p = xcor (turtle p)"

definition player_y :: "Player \<Rightarrow> real" where
  "player_y p = ycor (turtle p)"

record Enemy = GameElement +
  enemy_size :: real
  color :: string

definition Enemy_init :: "GameElement \<Rightarrow> real \<Rightarrow> string \<Rightarrow> error + Enemy" where
  "Enemy_init ge sz c = Inr \<lparr>elem_x = elem_x ge, elem_y = elem_y ge, enemy_size = sz, color = c\<rparr>"

definition hits_player :: "'a Enemy_scheme \<Rightarrow> Player \<Rightarrow> bool" where
  "hits_player e p =
     ((elem_x e - enemy_size e / 2 < player_x p \<and> player_x p < elem_x e + enemy_size e / 2)
      \<and>
      (elem_y e - enemy_size e / 2 < player_y p \<and> player_y p < elem_y e + enemy_size e / 2))"

type_synonym ChasingEnemy = Enemy

text \<open>
  \<^verbatim>\<open>__home_corner\<close> is a list literal of four pairs that is never changed, so it
  is a quadruple here; \<open>corner0\<close> to \<open>corner3\<close> are \<^verbatim>\<open>self.__home_corner[0]\<close> to
  \<^verbatim>\<open>self.__home_corner[3]\<close>.
\<close>

type_synonym corners = "(real \<times> real) \<times> (real \<times> real) \<times> (real \<times> real) \<times> (real \<times> real)"

record FencingEnemy = Enemy +
  step :: int
  home_x :: real
  home_y :: real
  side_length :: real
  home_corner :: corners

definition corner0 :: "corners \<Rightarrow> real \<times> real" where
  "corner0 cs = fst cs"

definition corner1 :: "corners \<Rightarrow> real \<times> real" where
  "corner1 cs = fst (snd cs)"

definition corner2 :: "corners \<Rightarrow> real \<times> real" where
  "corner2 cs = fst (snd (snd cs))"

definition corner3 :: "corners \<Rightarrow> real \<times> real" where
  "corner3 cs = snd (snd (snd cs))"

record RandomEnemy = Enemy +
  angle :: real

record FrontGateEnermy = Enemy +
  gate_angle :: real

definition ChasingEnemy_init :: "GameElement \<Rightarrow> real \<Rightarrow> string \<Rightarrow> error + ChasingEnemy" where
  "ChasingEnemy_init ge sz c = Enemy_init ge sz c"

definition FencingEnemy_init :: "Home \<Rightarrow> GameElement \<Rightarrow> real \<Rightarrow> string \<Rightarrow> error + FencingEnemy" where
  "FencingEnemy_init h ge sz c =
     (case Enemy_init ge sz c of
        Inl er \<Rightarrow> Inl er
      | Inr b \<Rightarrow>
          (let hx = elem_x h; hy = elem_y h; cn = 100 / 2
           in Inr \<lparr>elem_x = elem_x b, elem_y = elem_y b, enemy_size = enemy_size b, color = color b,
                   step = 0, home_x = hx, home_y = hy, side_length = 100,
                   home_corner = ((hx - cn, hy - cn), (hx + cn, hy - cn),
                                  (hx + cn, hy + cn), (hx - cn, hy + cn))\<rparr>))"

definition RandomEnemy_init :: "GameElement \<Rightarrow> real \<Rightarrow> string \<Rightarrow> error + RandomEnemy" where
  "RandomEnemy_init ge sz c =
     (case Enemy_init ge sz c of
        Inl er \<Rightarrow> Inl er
      | Inr b \<Rightarrow> Inr \<lparr>elem_x = elem_x b, elem_y = elem_y b, enemy_size = enemy_size b,
                      color = color b, angle = 45\<rparr>)"

definition FrontGateEnermy_init :: "GameElement \<Rightarrow> real \<Rightarrow> string \<Rightarrow> error + FrontGateEnermy" where
  "FrontGateEnermy_init ge sz c =
     (case Enemy_init ge sz c of
        Inl er \<Rightarrow> Inl er
      | Inr b \<Rightarrow> Inr \<lparr>elem_x = elem_x b, elem_y = elem_y b, enemy_size = enemy_size b,
                      color = color b, gate_angle = 45\<rparr>)"

datatype enemy =
    Chasing ChasingEnemy
  | Fencing FencingEnemy
  | Random RandomEnemy
  | FrontGate FrontGateEnermy

subsection \<open>The game\<close>

datatype signal = Win | Lose

text \<open>
  The elements registered with the game, in registration order. The waypoint, the home
  and the player are the objects held in the game's own fields, so they are named here
  and not copied; an enemy is referenced from this list only.
\<close>

datatype element = WaypointE | HomeE | PlayerE | EnemyE enemy

text \<open>
  \<open>game_over\<close> logs the calls of \<^verbatim>\<open>game_over_win\<close> and \<^verbatim>\<open>game_over_lose\<close>
  (each stops the game and draws a banner).
\<close>

record EnemyGenerator =
  gen_level :: int
  gen_screen_width :: int
  gen_screen_height :: int

record Game =
  level :: int
  screen_width :: int
  screen_height :: int
  waypoint :: Waypoint
  player :: "Player option"
  home :: Home
  enemies :: "enemy list"
  enemy_generator :: EnemyGenerator
  elements :: "element list"
  game_over :: "signal list"

definition game_over_win :: "Game \<Rightarrow> Game" where
  "game_over_win g = g\<lparr>game_over := game_over g @ [Win]\<rparr>"

definition game_over_lose :: "Game \<Rightarrow> Game" where
  "game_over_lose g = g\<lparr>game_over := game_over g @ [Lose]\<rparr>"

text \<open>
  Modelled from the spec: \<^verbatim>\<open>Game.add_element\<close> of \<^verbatim>\<open>gamelib\<close> is not part of the
  source file; the spec has it add the element to the session's insertion-ordered entity
  collection.
\<close>

definition add_element :: "element \<Rightarrow> Game \<Rightarrow> Game" where
  "add_element e g = g\<lparr>elements := elements g @ [e]\<rparr>"

definition add_enemy :: "enemy \<Rightarrow> Game \<Rightarrow> Game" where
  "add_enemy e g = add_element (EnemyE e) (g\<lparr>enemies := enemies g @ [e]\<rparr>)"

subsection \<open>Player.update\<close>

text \<open>
  \<open>Player_update p g\<close> is \<^verbatim>\<open>p.update()\<close> for the player \<open>p\<close> of the game \<open>g\<close>;
  the updated player is written back to the game's \<open>player\<close> field.
\<close>

definition Player_update :: "Player \<Rightarrow> Game \<Rightarrow> Game" where
  "Player_update p g =
     (let g1 = (if contains (home g) (player_x p) (player_y p) then game_over_win g else g);
          w = waypoint g1
      in if active w then
           (let t1 = setheading (towards (turtle p) (elem_x w) (elem_y w)) (turtle p);
                t2 = forward (speed p) t1;
                w' = (if distance t2 (elem_x w) (elem_y w) < speed p then deactivate w else w)
            in g1\<lparr>player := Some (p\<lparr>turtle := t2\<rparr>), waypoint := w'\<rparr>)
         else g1\<lparr>player := Some p\<rparr>)"

subsection \<open>Enemy updates\<close>

text \<open>
  An enemy's \<^verbatim>\<open>update\<close> changes the enemy itself and may end the game, so each model
  returns the updated enemy and the updated game. The \<^verbatim>\<open>return\<close> after
  \<^verbatim>\<open>game_over_lose\<close> is the branch that leaves the enemy as it was.
\<close>

definition ChasingEnemy_update :: "ChasingEnemy \<Rightarrow> Game \<Rightarrow> ChasingEnemy \<times> Game" where
  "ChasingEnemy_update e g =
     (case player g of
        None \<Rightarrow> (e, g)
      | Some p \<Rightarrow>
          (let px = player_x p; py = player_y p;
               d = sqrt ((px - elem_x e)\<^sup>2 + (py - elem_y e)\<^sup>2)
           in if d < enemy_size e then (e, game_over_lose g)
              else
                (let a = atan2 (py - elem_y e) (px - elem_x e); sp = 3
                 in (e\<lparr>elem_x := elem_x e + sp * cos a, elem_y := elem_y e + sp * sin a\<rparr>, g))))"

definition fencing_move :: "FencingEnemy \<Rightarrow> FencingEnemy" where
  "fencing_move e =
     (let sp = 2
      in if step e = 0 then
           (let e1 = e\<lparr>elem_x := elem_x e + sp\<rparr>
            in if elem_x e1 \<ge> fst (corner1 (home_corner e1)) then e1\<lparr>step := step e1 + 1\<rparr> else e1)
         else if step e = 1 then
           (let e1 = e\<lparr>elem_y := elem_y e + sp\<rparr>
            in if elem_y e1 \<ge> snd (corner2 (home_corner e1)) then e1\<lparr>step := step e1 + 1\<rparr> else e1)
         else if step e = 2 then
           (let e1 = e\<lparr>elem_x := elem_x e - sp\<rparr>
            in if elem_x e1 \<le> fst (corner3 (home_corner e1)) then e1\<lparr>step := step e1 + 1\<rparr> else e1)
         else if step e = 3 then
           (let e1 = e\<lparr>elem_y := elem_y e - sp\<rparr>
            in if elem_y e1 \<le> snd (corner0 (home_corner e1)) then e1\<lparr>step := 0\<rparr> else e1)
         else e)"

definition FencingEnemy_update :: "FencingEnemy \<Rightarrow> Game \<Rightarrow> FencingEnemy \<times> Game" where
  "FencingEnemy_update e g =
     (case player g of
        None \<Rightarrow> (e, g)
      | Some p \<Rightarrow> if hits_player e p then (e, game_over_lose g) else (fencing_move e, g))"

definition RandomEnemy_update :: "RandomEnemy \<Rightarrow> Game \<Rightarrow> RandomEnemy \<times> Game" where
  "RandomEnemy_update e g =
     (case player g of
        None \<Rightarrow> (e, g)
      | Some p \<Rightarrow>
          if hits_player e p then (e, game_over_lose g)
          else
            (let sp = 3;
                 e1 = e\<lparr>elem_x := elem_x e + sp * cos (angle e)\<rparr>;
                 e2 = e1\<lparr>elem_y := elem_y e1 + sp * sin (angle e1)\<rparr>;
                 sw = screen_width g; sh = screen_height g;
                 e3 = (if elem_x e2 < 0 \<or> elem_x e2 > real_of_int sw
                       then e2\<lparr>angle := pi - angle e2\<rparr> else e2);
                 e4 = (if elem_y e3 < 0 \<or> elem_y e3 > real_of_int sh
                       then e3\<lparr>angle := - angle e3\<rparr> else e3)
             in (e4, g)))"

definition FrontGateEnermy_update :: "FrontGateEnermy \<Rightarrow> Game \<Rightarrow> FrontGateEnermy \<times> Game" where
  "FrontGateEnermy_update e g =
     (case player g of
        None \<Rightarrow> (e, g)
      | Some p \<Rightarrow>
          if hits_player e p then (e, game_over_lose g)
          else
            (let sp = 3;
                 e1 = e\<lparr>elem_x := elem_x e + sp * cos (gate_angle e)\<rparr>;
                 e2 = e1\<lparr>elem_y := elem_y e1 + sp * sin (gate_angle e1)\<rparr>;
                 sw = screen_width g; sh = screen_height g;
                 e3 = (if elem_x e2 < real_of_int (sw - (sw div 4)) \<or> elem_x e2 > real_of_int sw
                       then e2\<lparr>gate_angle := pi - gate_angle e2\<rparr> else e2);
                 e4 = (if elem_y e3 < real_of_int (sh div 3) \<or> elem_y e3 > real_of_int (sh - (sh div 3))
                       then e3\<lparr>gate_angle := - gate_angle e3\<rparr> else e3)
             in (e4, g)))"

definition update_enemy :: "enemy \<Rightarrow> Game \<Rightarrow> enemy \<times> Game" where
  "update_enemy en g =
     (case en of
        Chasing e \<Rightarrow> (case ChasingEnemy_update e g of (e', g') \<Rightarrow> (Chasing e', g'))
      | Fencing e \<Rightarrow> (case FencingEnemy_update e g of (e', g') \<Rightarrow> (Fencing e', g'))
      | Random e \<Rightarrow> (case RandomEnemy_update e g of (e', g') \<Rightarrow> (Random e', g'))
      | FrontGate e \<Rightarrow> (case FrontGateEnermy_update e g of (e', g') \<Rightarrow> (FrontGate e', g')))"

subsection \<open>EnemyGenerator and TurtleAdventureGame\<close>

definition EnemyGenerator_init :: "int \<Rightarrow> int \<Rightarrow> int \<Rightarrow> EnemyGenerator" where
  "EnemyGenerator_init lvl sw sh = \<lparr>gen_level = lvl, gen_screen_width = sw, gen_screen_height = sh\<rparr>"

text \<open>
  \<^verbatim>\<open>create_enemy\<close> builds one enemy of each class, places it and registers it with
  \<^verbatim>\<open>add_element\<close>. \<open>ge\<close> is the base object of a new element.
\<close>

definition create_enemy :: "GameElement \<Rightarrow> Game \<Rightarrow> error + Game" where
  "create_enemy ge g =
     (case RandomEnemy_init ge 20 ''red'' of Inl er \<Rightarrow> Inl er | Inr random_enemy \<Rightarrow>
      case ChasingEnemy_init ge 20 ''blue'' of Inl er \<Rightarrow> Inl er | Inr chasing_enemy \<Rightarrow>
      case FencingEnemy_init (home g) ge 20 ''orange'' of Inl er \<Rightarrow> Inl er | Inr fencing_enemy \<Rightarrow>
      case FrontGateEnermy_init ge 20 ''pink'' of Inl er \<Rightarrow> Inl er | Inr front_gate_enemy \<Rightarrow>
        (let gen = enemy_generator g;
             random_enemy = random_enemy\<lparr>elem_x := 100, elem_y := 100\<rparr>;
             chasing_enemy = chasing_enemy\<lparr>elem_x := 200, elem_y := 200\<rparr>;
             fencing_enemy = fencing_enemy\<lparr>elem_x := real_of_int (gen_screen_width gen - 150),
                                            elem_y := real_of_int ((gen_screen_height gen div 2) - 50)\<rparr>;
             front_gate_enemy = front_gate_enemy\<lparr>elem_x := real_of_int (gen_screen_width gen - 100),
                                                  elem_y := real_of_int (gen_screen_height gen div 2)\<rparr>;
             g1 = add_element (EnemyE (Random random_enemy)) g;
             g2 = add_element (EnemyE (Chasing chasing_enemy)) g1;
             g3 = add_element (EnemyE (Fencing fencing_enemy)) g2
         in Inr (add_element (EnemyE (FrontGate front_gate_enemy)) g3)))"

text \<open>
  \<^verbatim>\<open>TurtleAdventureGame.__init__\<close> sets the level, the screen dimensions and the empty
  \<^verbatim>\<open>enemies\<close> list and hands over to \<^verbatim>\<open>Game.__init__\<close> of \<^verbatim>\<open>gamelib\<close>;
  \<^verbatim>\<open>init_game\<close> fills in the waypoint, the home and the player. A record has no
  unset fields, so the two are one function here. \<open>ge\<close> is the base object of a new
  element and \<open>t\<close> the new \<^verbatim>\<open>RawTurtle\<close>.
\<close>

definition init_game :: "GameElement \<Rightarrow> RawTurtle \<Rightarrow> int \<Rightarrow> int \<Rightarrow> int \<Rightarrow> error + Game" where
  "init_game ge t sw sh lvl =
     (case Player_init t 5 of
        Inl er \<Rightarrow> Inl er
      | Inr p \<Rightarrow>
          (let g0 = \<lparr>level = lvl, screen_width = sw, screen_height = sh,
                     waypoint = Waypoint_init ge,
                     player = Some p,
                     home = Home_init (real_of_int (sw - 100), real_of_int (sh div 2)) 20,
                     enemies = [],
                     enemy_generator = EnemyGenerator_init lvl sw sh,
                     elements = [],
                     game_over = []\<rparr>;
               g1 = add_element WaypointE g0;
               g2 = add_element HomeE g1;
               g3 = add_element PlayerE g2;
               p1 = p\<lparr>turtle := setx 50 (turtle p)\<rparr>;
               p2 = p1\<lparr>turtle := sety (real_of_int (sh div 2)) (turtle p1)\<rparr>
           in Inr (g3\<lparr>player := Some p2\<rparr>)))"

subsection \<open>Events\<close>

text \<open>
  What the host loop can make the program do: a mouse click activates the waypoint, a
  tick calls \<^verbatim>\<open>update\<close> of a registered element, and the timer set by
  \<^verbatim>\<open>EnemyGenerator.__init__\<close> calls \<^verbatim>\<open>create_enemy\<close>. The updates of
  \<^verbatim>\<open>Waypoint\<close> and \<^verbatim>\<open>Home\<close> are \<^verbatim>\<open>pass\<close>.
\<close>

definition click :: "real \<Rightarrow> real \<Rightarrow> Game \<Rightarrow> Game" where
  "click px py g = g\<lparr>waypoint := activate px py (waypoint g)\<rparr>"

definition Player_tick :: "Game \<Rightarrow> Game" where
  "Player_tick g = (case player g of None \<Rightarrow> g | Some p \<Rightarrow> Player_update p g)"

definition update_element :: "nat \<Rightarrow> Game \<Rightarrow> Game" where
  "update_element i g =
     (if i < length (elements g) then
        (case elements g ! i of
           WaypointE \<Rightarrow> g
         | HomeE \<Rightarrow> g
         | PlayerE \<Rightarrow> Player_tick g
         | EnemyE en \<Rightarrow>
             (case update_enemy en g of (en', g') \<Rightarrow> g'\<lparr>elements := (elements g')[i := EnemyE en']\<rparr>))
      else g)"

datatype event = Click real real | Update nat | Spawn

fun fire :: "GameElement \<Rightarrow> event \<Rightarrow> Game \<Rightarrow> error + Game" where
  "fire ge (Click px py) g = Inr (click px py g)"
| "fire ge (Update i) g = Inr (update_element i g)"
| "fire ge Spawn g = create_enemy ge g"

text \<open>
  The number of the first player update that calls \<^verbatim>\<open>game_over_win\<close>, among the
  next \<open>n\<close> updates; \<open>k\<close> counts the updates already made.
\<close>

fun first_win :: "nat \<Rightarrow> nat \<Rightarrow> Game \<Rightarrow> nat option" where
  "first_win 0 k g = None"
| "first_win (Suc n) k g =
     (let g' = Player_tick g
      in if Win \<in> set (game_over g') then Some (Suc k) else first_win n (Suc k) g')"

text \<open>
  The states of the program: the state after \<^verbatim>\<open>init_game\<close>, and every state an
  event leads to from there. No event calls \<^verbatim>\<open>add_enemy\<close>, as no line of the
  source does.
\<close>

inductive reachable :: "GameElement \<Rightarrow> RawTurtle \<Rightarrow> int \<Rightarrow> int \<Rightarrow> int \<Rightarrow> Game \<Rightarrow> bool"
  for ge :: GameElement and t :: RawTurtle and sw :: int and sh :: int and lvl :: int where
  start: "init_game ge t sw sh lvl = Inr g \<Longrightarrow> reachable ge t sw sh lvl g"
| step: "reachable ge t sw sh lvl g \<Longrightarrow> fire ge ev g = Inr g' \<Longrightarrow> reachable ge t sw sh lvl g'"

subsection \<open>Auxiliary notions for the properties\<close>

text \<open>
  The patrol data of a fencing enemy built for the home \<open>h\<close>: a phase in
  \<open>{0, 1, 2, 3}\<close> and the corners of the square of half-extent 50 around \<open>h\<close>.
\<close>

definition fencing_inv :: "Home \<Rightarrow> FencingEnemy \<Rightarrow> bool" where
  "fencing_inv h e \<longleftrightarrow>
     step e \<in> {0, 1, 2, 3} \<and>
     home_corner e = ((elem_x h - 50, elem_y h - 50), (elem_x h + 50, elem_y h - 50),
                      (elem_x h + 50, elem_y h + 50), (elem_x h - 50, elem_y h + 50))"

text \<open>
  The player on its way from (50, 300) to the waypoint at (700, 300), after \<open>k\<close> steps
  of length 5, with the home at (700, 300) of size 20 and no game over so far.
\<close>

definition walking :: "nat \<Rightarrow> Game \<Rightarrow> bool" where
  "walking k g \<longleftrightarrow>
     home g = \<lparr>elem_x = 700, elem_y = 300, home_size = 20\<rparr> \<and>
     waypoint g = \<lparr>elem_x = 700, elem_y = 300, active = True\<rparr> \<and>
     (\<exists>a. player g = Some \<lparr>speed = 5, turtle = \<lparr>xcor = 50 + 5 * real k, ycor = 300, heading = a\<rparr>\<rparr>) \<and>
     game_over g = []"

text \<open>
  Concrete states for the scenarios: \<open>arena sw sh\<close> is the game right after
  \<^verbatim>\<open>init_game\<close> on a screen of \<open>sw\<close> by \<open>sh\<close> (for 800 by 600: home at (700, 300)
  of size 20, player at (50, 300) with speed 5), and \<open>place_player\<close> is the pair of
  assignments \<^verbatim>\<open>player.x = px; player.y = py\<close>.
\<close>

definition origin :: GameElement where
  "origin = \<lparr>elem_x = 0, elem_y = 0\<rparr>"

definition new_turtle :: RawTurtle where
  "new_turtle = \<lparr>xcor = 0, ycor = 0, heading = 0\<rparr>"

definition arena :: "int \<Rightarrow> int \<Rightarrow> Game" where
  "arena sw sh = projr (init_game origin new_turtle sw sh 1)"

definition place_player :: "real \<Rightarrow> real \<Rightarrow> Game \<Rightarrow> Game" where
  "place_player px py g =
     g\<lparr>player := map_option (\<lambda>p. p\<lparr>turtle := sety py (setx px (turtle p))\<rparr>) (player g)\<rparr>"

text \<open>
  The fencing enemy that \<^verbatim>\<open>FencingEnemy(game, 20, "orange")\<close> builds in that game, put
  in phase \<open>s\<close> at \<open>(px, py)\<close>.
\<close>

definition patrol :: "int \<Rightarrow> real \<Rightarrow> real \<Rightarrow> FencingEnemy" where
  "patrol s px py =
     (projr (FencingEnemy_init (home (arena 800 600)) origin 20 ''orange''))
       \<lparr>step := s, elem_x := px, elem_y := py\<rparr>"

section \<open>Properties\<close>

subsection \<open>The state after init\_game\<close>

lemma arena_eq:
  "arena sw sh =
     \<lparr>level = 1, screen_width = sw, screen_height = sh,
      waypoint = \<lparr>elem_x = 0, elem_y = 0, active = False\<rparr>,
      player = Some \<lparr>speed = 5, turtle = \<lparr>xcor = 50, ycor = real_of_int (sh div 2), heading = 0\<rparr>\<rparr>,
      home = \<lparr>elem_x = real_of_int (sw - 100), elem_y = real_of_int (sh div 2), home_size = 20\<rparr>,
      enemies = [],
      enemy_generator = \<lparr>gen_level = 1, gen_screen_width = sw, gen_screen_height = sh\<rparr>,
      elements = [WaypointE, HomeE, PlayerE],
      game_over = []\<rparr>"
  by (simp add: arena_def init_game_def Player_init_def Waypoint_init_def Home_init_def
      EnemyGenerator_init_def add_element_def setx_def sety_def origin_def new_turtle_def)

subsection \<open>Construction\<close>

text \<open>
  C3 as stated: constructing a Player with a negative speed, or an Enemy with a negative
  size, fails with InvalidConfiguration. The source has no such check: a player of speed
  \<open>-1\<close> and an enemy of size \<open>-20\<close> are built and keep these values.
\<close>

theorem negative_speed_and_size_accepted:
  "Player_init new_turtle (- 1) = Inr \<lparr>speed = - 1, turtle = new_turtle\<rparr>
   \<and> Enemy_init origin (- 20) ''red''
       = Inr \<lparr>elem_x = 0, elem_y = 0, enemy_size = - 20, color = ''red''\<rparr>"
  by (simp add: Player_init_def Enemy_init_def origin_def)

text \<open>
  C3, amended: constructing a Player with any speed and an Enemy of any of the classes
  with any size, negative ones included, succeeds and stores the number as given; no
  constructor returns InvalidConfiguration.
\<close>

theorem constructors_accept_any_number:
  "Player_init t sp = Inr \<lparr>speed = sp, turtle = t\<rparr>
   \<and> (\<exists>e. Enemy_init ge sz c = Inr e \<and> enemy_size e = sz)
   \<and> (\<exists>e. ChasingEnemy_init ge sz c = Inr e \<and> enemy_size e = sz)
   \<and> (\<exists>e. FencingEnemy_init h ge sz c = Inr e \<and> enemy_size e = sz)
   \<and> (\<exists>e. RandomEnemy_init ge sz c = Inr e \<and> enemy_size e = sz)
   \<and> (\<exists>e. FrontGateEnermy_init ge sz c = Inr e \<and> enemy_size e = sz)"
  by (simp add: Player_init_def Enemy_init_def ChasingEnemy_init_def FencingEnemy_init_def
      RandomEnemy_init_def FrontGateEnermy_init_def Let_def)

subsection \<open>The hit test\<close>

text \<open>
  C5: for every enemy whose class inherits \<^verbatim>\<open>hits_player\<close> and every player position,
  the test holds exactly when the player's point is strictly inside the axis-aligned
  square of half-width size/2 centred on the enemy; a player on the boundary of the
  square is not hit. The enemy is any extension of the \<open>Enemy\<close> record, so the statement
  covers FencingEnemy, RandomEnemy and FrontGateEnermy alike.
\<close>

theorem hits_player_strictly_inside:
  "(hits_player e p \<longleftrightarrow>
      \<bar>player_x p - elem_x e\<bar> < enemy_size e / 2 \<and> \<bar>player_y p - elem_y e\<bar> < enemy_size e / 2)
   \<and> (\<bar>player_x p - elem_x e\<bar> = enemy_size e / 2 \<or> \<bar>player_y p - elem_y e\<bar> = enemy_size e / 2
        \<longrightarrow> \<not> hits_player e p)"
  unfolding hits_player_def by (auto simp: abs_if split: if_splits)

theorem hits_player_strictly_inside_witness:
  "\<not> hits_player \<lparr>elem_x = 100, elem_y = 100, enemy_size = 20, color = ''red''\<rparr>
       \<lparr>speed = 5, turtle = \<lparr>xcor = 110, ycor = 100, heading = 0\<rparr>\<rparr>
   \<and> hits_player \<lparr>elem_x = 100, elem_y = 100, enemy_size = 20, color = ''orange'', angle = 45\<rparr>
       \<lparr>speed = 5, turtle = \<lparr>xcor = 109, ycor = 100, heading = 0\<rparr>\<rparr>"
  using hits_player_strictly_inside
          [of "\<lparr>elem_x = 100, elem_y = 100, enemy_size = 20, color = ''red''\<rparr>"
              "\<lparr>speed = 5, turtle = \<lparr>xcor = 110, ycor = 100, heading = 0\<rparr>\<rparr>"]
        hits_player_strictly_inside
          [of "\<lparr>elem_x = 100, elem_y = 100, enemy_size = 20, color = ''orange'', angle = 45\<rparr>"
              "\<lparr>speed = 5, turtle = \<lparr>xcor = 109, ycor = 100, heading = 0\<rparr>\<rparr>"]
  by (simp add: player_x_def player_y_def)

subsection \<open>Geometry of the turtle\<close>

lemma sqrt_one_plus_div:
  fixes x y :: real
  assumes "x \<noteq> 0"
  shows "sqrt (1 + (y / x)\<^sup>2) = sqrt (x\<^sup>2 + y\<^sup>2) / \<bar>x\<bar>"
proof -
  have "1 + (y / x)\<^sup>2 = (x\<^sup>2 + y\<^sup>2) / x\<^sup>2"
    using assms by (simp add: power_divide add_divide_distrib)
  then show ?thesis
    by (simp add: real_sqrt_divide)
qed

lemma cos_atan2:
  assumes "x \<noteq> 0 \<or> y \<noteq> 0"
  shows "cos (atan2 y x) = x / sqrt (x\<^sup>2 + y\<^sup>2)"
proof -
  consider "0 < x" | "x < 0" | "x = 0" by linarith
  then show ?thesis
  proof cases
    case 1
    then show ?thesis
      by (simp add: atan2_def cos_arctan sqrt_one_plus_div)
  next
    case 2
    then show ?thesis
      by (simp add: atan2_def cos_arctan sqrt_one_plus_div)
  next
    case 3
    then show ?thesis using assms
      by (simp add: atan2_def)
  qed
qed

lemma sin_atan2:
  assumes "x \<noteq> 0 \<or> y \<noteq> 0"
  shows "sin (atan2 y x) = y / sqrt (x\<^sup>2 + y\<^sup>2)"
proof -
  consider "0 < x" | "x < 0" | "x = 0" by linarith
  then show ?thesis
  proof cases
    case 1
    then show ?thesis
      by (simp add: atan2_def sin_arctan sqrt_one_plus_div)
  next
    case 2
    then show ?thesis
      by (simp add: atan2_def sin_arctan sqrt_one_plus_div)
  next
    case 3
    then show ?thesis using assms
      by (simp add: atan2_def real_sqrt_abs)
  qed
qed

lemma distance_after_forward:
  assumes "0 < distance t px py"
  shows "distance (forward s (setheading (towards t px py) t)) px py = \<bar>distance t px py - s\<bar>"
proof -
  define dx where "dx = px - xcor t"
  define dy where "dy = py - ycor t"
  define d where "d = sqrt (dx\<^sup>2 + dy\<^sup>2)"
  have d: "0 < d" "d = distance t px py"
    using assms by (simp_all add: d_def dx_def dy_def distance_def)
  then have nz: "dx \<noteq> 0 \<or> dy \<noteq> 0"
    by (auto simp: d_def)
  have dd: "d\<^sup>2 = dx\<^sup>2 + dy\<^sup>2"
    by (simp add: d_def)
  have c: "cos (atan2 dy dx) = dx / d" and sn: "sin (atan2 dy dx) = dy / d"
    using nz by (simp_all add: cos_atan2 sin_atan2 d_def)
  have "distance (forward s (setheading (towards t px py) t)) px py
        = sqrt ((dx - s * (dx / d))\<^sup>2 + (dy - s * (dy / d))\<^sup>2)"
  proof -
    have x: "px - xcor (forward s (setheading (towards t px py) t)) = dx - s * (dx / d)"
      using c by (simp add: forward_def setheading_def towards_def dx_def dy_def)
    have y: "py - ycor (forward s (setheading (towards t px py) t)) = dy - s * (dy / d)"
      using sn by (simp add: forward_def setheading_def towards_def dx_def dy_def)
    show ?thesis
      unfolding distance_def x y ..
  qed
  also have "(dx - s * (dx / d))\<^sup>2 + (dy - s * (dy / d))\<^sup>2 = (d - s)\<^sup>2"
  proof -
    have "dx - s * (dx / d) = dx * (1 - s / d)" "dy - s * (dy / d) = dy * (1 - s / d)"
      by (simp_all add: algebra_simps)
    then have "(dx - s * (dx / d))\<^sup>2 + (dy - s * (dy / d))\<^sup>2
          = dx\<^sup>2 * (1 - s / d)\<^sup>2 + dy\<^sup>2 * (1 - s / d)\<^sup>2"
      by (simp only: power_mult_distrib)
    also have "\<dots> = (dx\<^sup>2 + dy\<^sup>2) * (1 - s / d)\<^sup>2"
      by (simp only: distrib_right)
    also have "\<dots> = d\<^sup>2 * (1 - s / d)\<^sup>2"
      by (simp only: dd)
    also have "\<dots> = (d * (1 - s / d))\<^sup>2"
      by (simp add: power_mult_distrib)
    also have "d * (1 - s / d) = d - s"
      using d(1) by (simp add: algebra_simps)
    finally show ?thesis .
  qed
  finally show ?thesis
    by (simp add: d(2))
qed

subsection \<open>Player.update\<close>

lemma Player_update_active:
  assumes "active (waypoint g)"
  shows "Player_update p g =
     (let g1 = (if contains (home g) (player_x p) (player_y p) then game_over_win g else g);
          w = waypoint g;
          t2 = forward (speed p) (setheading (towards (turtle p) (elem_x w) (elem_y w)) (turtle p))
      in g1\<lparr>player := Some (p\<lparr>turtle := t2\<rparr>),
            waypoint := (if distance t2 (elem_x w) (elem_y w) < speed p then deactivate w else w)\<rparr>)"
  using assms by (simp add: Player_update_def Let_def game_over_win_def)

text \<open>
  C2, amended: in every Player.update with the waypoint active, the waypoint is
  deactivated during that tick exactly when the player's distance to the waypoint,
  measured after the move of \<open>speed\<close> units, is less than \<open>speed\<close>; otherwise it
  stays active. When the player is not on the waypoint before the move, that distance is
  the absolute difference of the distance before the move and \<open>speed\<close>.
\<close>

theorem waypoint_deactivated_iff_close_after_move:
  assumes "active (waypoint g)"
  shows "\<exists>q. player (Player_update p g) = Some q
           \<and> (\<not> active (waypoint (Player_update p g))
                \<longleftrightarrow> distance (turtle q) (elem_x (waypoint g)) (elem_y (waypoint g)) < speed p)
           \<and> (0 < distance (turtle p) (elem_x (waypoint g)) (elem_y (waypoint g)) \<longrightarrow>
                distance (turtle q) (elem_x (waypoint g)) (elem_y (waypoint g))
                  = \<bar>distance (turtle p) (elem_x (waypoint g)) (elem_y (waypoint g)) - speed p\<bar>)"
  using assms
  by (simp add: Player_update_active Let_def deactivate_def game_over_win_def distance_after_forward)

lemma distance_horizontal: "ycor t = py \<Longrightarrow> distance t px py = \<bar>px - xcor t\<bar>"
  by (simp add: distance_def)

theorem waypoint_deactivated_iff_close_after_move_witness:
  "active (waypoint (click 58 300 (arena 800 600)))
   \<and> 0 < distance \<lparr>xcor = 50, ycor = 300, heading = 0\<rparr> 58 300
   \<and> \<not> active (waypoint (Player_update \<lparr>speed = 5, turtle = \<lparr>xcor = 50, ycor = 300, heading = 0\<rparr>\<rparr>
                                        (click 58 300 (arena 800 600))))"
  using waypoint_deactivated_iff_close_after_move
          [of "click 58 300 (arena 800 600)"
              "\<lparr>speed = 5, turtle = \<lparr>xcor = 50, ycor = 300, heading = 0\<rparr>\<rparr>"]
  by (auto simp: arena_eq click_def activate_def distance_horizontal)

text \<open>
  C2 as stated: the waypoint is deactivated exactly when the distance measured before the
  move is less than \<open>speed\<close>. With the player at (0, 0), speed 5 and the waypoint at
  (7, 0) the distance before the move is 7, not less than 5, and the update deactivates
  the waypoint all the same (the player is then 2 away from it).
\<close>

theorem waypoint_kept_by_distance_before_move:
  "active (waypoint (place_player 0 0 (click 7 0 (arena 800 600))))
   \<and> player (place_player 0 0 (click 7 0 (arena 800 600)))
       = Some \<lparr>speed = 5, turtle = \<lparr>xcor = 0, ycor = 0, heading = 0\<rparr>\<rparr>
   \<and> distance \<lparr>xcor = 0, ycor = 0, heading = 0\<rparr> 7 0 = 7
   \<and> \<not> active (waypoint (Player_tick (place_player 0 0 (click 7 0 (arena 800 600)))))"
  by (simp add: arena_eq click_def activate_def place_player_def setx_def sety_def
      Player_tick_def Player_update_def contains_def player_x_def player_y_def
      towards_def atan2_def setheading_def forward_def distance_horizontal deactivate_def)

text \<open>
  C1: when the home contains the player at the start of Player.update, Win is signalled
  and the position is to stay as it is. The source calls \<^verbatim>\<open>game_over_win\<close> and
  goes on without a \<^verbatim>\<open>return\<close>: with the player at (690, 300) on the edge of the home
  and the waypoint active at (700, 300), the update signals Win and moves the player to
  (695, 300).
\<close>

theorem player_moves_after_win:
  "player (place_player 690 300 (click 700 300 (arena 800 600)))
       = Some \<lparr>speed = 5, turtle = \<lparr>xcor = 690, ycor = 300, heading = 0\<rparr>\<rparr>
   \<and> contains (home (place_player 690 300 (click 700 300 (arena 800 600)))) 690 300
   \<and> game_over (Player_tick (place_player 690 300 (click 700 300 (arena 800 600)))) = [Win]
   \<and> player (Player_tick (place_player 690 300 (click 700 300 (arena 800 600))))
       = Some \<lparr>speed = 5, turtle = \<lparr>xcor = 695, ycor = 300, heading = 0\<rparr>\<rparr>"
  by (simp add: arena_eq click_def activate_def place_player_def setx_def sety_def
      Player_tick_def Player_update_def contains_def player_x_def player_y_def game_over_win_def
      towards_def atan2_def setheading_def forward_def distance_horizontal deactivate_def)

subsection \<open>The walk to the home\<close>

lemma atan2_east: "0 < x \<Longrightarrow> atan2 0 x = 0"
  by (simp add: atan2_def)

lemma walking_step:
  assumes w: "walking k g" and k: "k < 128"
  shows "walking (Suc k) (Player_tick g)"
proof -
  from w obtain a where
    h: "home g = \<lparr>elem_x = 700, elem_y = 300, home_size = 20\<rparr>" and
    wp: "waypoint g = \<lparr>elem_x = 700, elem_y = 300, active = True\<rparr>" and
    p: "player g = Some \<lparr>speed = 5, turtle = \<lparr>xcor = 50 + 5 * real k, ycor = 300, heading = a\<rparr>\<rparr>" and
    go: "game_over g = []"
    by (auto simp: walking_def)
  have rk: "real k < 128"
    using k by simp
  have out: "\<not> contains (home g) (50 + 5 * real k) 300"
    using rk by (simp add: contains_def h)
  have east: "atan2 0 (650 - 5 * real k) = 0"
    using rk by (intro atan2_east) simp
  have far: "\<not> \<bar>645 - 5 * real k\<bar> < 5"
    using rk by simp
  have "Player_tick g =
      g\<lparr>player := Some \<lparr>speed = 5, turtle = \<lparr>xcor = 50 + 5 * real (Suc k), ycor = 300, heading = 0\<rparr>\<rparr>\<rparr>"
    using out far east
    by (simp add: Player_tick_def p Player_update_def wp player_x_def player_y_def towards_def
        setheading_def forward_def distance_horizontal algebra_simps)
  then show ?thesis
    by (simp add: walking_def h wp go)
qed

lemma walking_win:
  assumes w: "walking 128 g"
  shows "Win \<in> set (game_over (Player_tick g))"
proof -
  from w obtain a where
    h: "home g = \<lparr>elem_x = 700, elem_y = 300, home_size = 20\<rparr>" and
    wp: "waypoint g = \<lparr>elem_x = 700, elem_y = 300, active = True\<rparr>" and
    p: "player g = Some \<lparr>speed = 5, turtle = \<lparr>xcor = 50 + 5 * real (128::nat), ycor = 300, heading = a\<rparr>\<rparr>"
    by (auto simp: walking_def)
  have "contains (home g) (50 + 5 * real (128::nat)) 300"
    by (simp add: contains_def h)
  then show ?thesis
    by (simp add: Player_tick_def p Player_update_def wp player_x_def player_y_def
        game_over_win_def Let_def)
qed

lemma first_win_walking:
  assumes "walking k g" and "k + m = 128"
  shows "first_win (Suc m + n) k g = Some 129"
  using assms
proof (induction m arbitrary: k g)
  case 0
  then have "walking 128 g" by simp
  then have "Win \<in> set (game_over (Player_tick g))"
    by (rule walking_win)
  with 0 show ?case by (simp add: Let_def)
next
  case (Suc m)
  then have k: "k < 128" by simp
  with Suc.prems have ws: "walking (Suc k) (Player_tick g)"
    by (simp add: walking_step)
  then have "Win \<notin> set (game_over (Player_tick g))"
    by (simp add: walking_def)
  moreover have "first_win (Suc m + n) (Suc k) (Player_tick g) = Some 129"
    using ws Suc.prems by (intro Suc.IH) simp_all
  ultimately show ?case by (simp add: Let_def)
qed

lemma no_win_walking:
  assumes "walking k g" and "k + m \<le> 128"
  shows "first_win m k g = None"
  using assms
proof (induction m arbitrary: k g)
  case 0
  show ?case by simp
next
  case (Suc m)
  then have k: "k < 128" by simp
  with Suc.prems have ws: "walking (Suc k) (Player_tick g)"
    by (simp add: walking_step)
  then have "Win \<notin> set (game_over (Player_tick g))"
    by (simp add: walking_def)
  moreover have "first_win m (Suc k) (Player_tick g) = None"
    using ws Suc.prems by (intro Suc.IH) simp_all
  ultimately show ?case by (simp add: Let_def)
qed

lemma walking_scenario: "walking 0 (click 700 300 (arena 800 600))"
  by (simp add: walking_def arena_eq click_def activate_def)

text \<open>
  C4, amended: with Home at (700, 300) of size 20, the player starting at (50, 300) with
  speed 5 and the waypoint activated at (700, 300), the first Player.update that reports
  Win is the 129th: none of the first 128 updates reports Win (they move the player to
  x = 690, the left edge of the home), and the 129th does. Home.contains is the inclusive
  axis-aligned square test, x in [cx - size/2, cx + size/2] and likewise for y.
\<close>

theorem win_at_tick_129:
  assumes "home g = \<lparr>elem_x = 700, elem_y = 300, home_size = 20\<rparr>"
    and "player g = Some \<lparr>speed = 5, turtle = \<lparr>xcor = 50, ycor = 300, heading = a\<rparr>\<rparr>"
    and "waypoint g = \<lparr>elem_x = 700, elem_y = 300, active = True\<rparr>"
    and "game_over g = []"
  shows "first_win (129 + n) 0 g = Some 129
         \<and> (\<forall>m \<le> 128. first_win m 0 g = None)
         \<and> (contains h px py \<longleftrightarrow>
               \<bar>px - elem_x h\<bar> \<le> home_size h / 2 \<and> \<bar>py - elem_y h\<bar> \<le> home_size h / 2)"
proof -
  have w: "walking 0 g"
    using assms by (simp add: walking_def)
  have "first_win (Suc 128 + n) 0 g = Some 129"
    using w by (rule first_win_walking) simp
  moreover have "\<forall>m \<le> 128. first_win m 0 g = None"
    using w by (simp add: no_win_walking)
  moreover have "contains h px py \<longleftrightarrow>
      \<bar>px - elem_x h\<bar> \<le> home_size h / 2 \<and> \<bar>py - elem_y h\<bar> \<le> home_size h / 2"
    by (auto simp: contains_def Let_def abs_if split: if_splits)
  ultimately show ?thesis by simp
qed

theorem win_at_tick_129_witness:
  "first_win 129 0 (click 700 300 (arena 800 600)) = Some 129
   \<and> first_win 128 0 (click 700 300 (arena 800 600)) = None
   \<and> contains (home (click 700 300 (arena 800 600))) 690 300"
  using win_at_tick_129 [of "click 700 300 (arena 800 600)" 0 0
          "home (click 700 300 (arena 800 600))" 690 300]
  by (simp add: arena_eq click_def activate_def)

text \<open>
  C4 as stated: Win is first reported after exactly 130 ticks. In the scenario the first
  update that reports Win is number 129, not 130.
\<close>

theorem no_win_at_tick_130:
  "first_win 130 0 (click 700 300 (arena 800 600)) = Some 129
   \<and> first_win 130 0 (click 700 300 (arena 800 600)) \<noteq> Some 130"
  using first_win_walking [OF walking_scenario, of 128 1] by simp

subsection \<open>ChasingEnemy.update\<close>

lemma step_length: "sqrt ((s * cos a)\<^sup>2 + (s * sin a)\<^sup>2) = \<bar>s\<bar>"
proof -
  have "(s * cos a)\<^sup>2 + (s * sin a)\<^sup>2 = s\<^sup>2 * ((cos a)\<^sup>2 + (sin a)\<^sup>2)"
    by (simp only: power_mult_distrib distrib_left)
  also have "\<dots> = s\<^sup>2"
    by (simp only: sin_cos_squared_add2 mult_1_right)
  finally show ?thesis by simp
qed

text \<open>
  C6: in every ChasingEnemy.update (with the game's player in place), if the Euclidean
  distance from the enemy to the player is strictly less than the enemy's size, Lose is
  signalled and the enemy does not move; otherwise nothing is signalled and the enemy
  moves by exactly 3 units along the angle from the enemy to the player, which is the
  direction of the player when the two are apart. The witness has the scenario: the
  enemy at (200, 200) of size 20 and the player at (205, 205) give Lose at once.
\<close>

theorem chasing_update:
  assumes "player g = Some p"
  shows "(sqrt ((player_x p - elem_x e)\<^sup>2 + (player_y p - elem_y e)\<^sup>2) < enemy_size e \<longrightarrow>
            ChasingEnemy_update e g = (e, game_over_lose g)
            \<and> game_over (game_over_lose g) = game_over g @ [Lose])
       \<and> (\<not> sqrt ((player_x p - elem_x e)\<^sup>2 + (player_y p - elem_y e)\<^sup>2) < enemy_size e \<longrightarrow>
            (\<exists>e'. ChasingEnemy_update e g = (e', g)
               \<and> e' = e\<lparr>elem_x := elem_x e + 3 * cos (atan2 (player_y p - elem_y e) (player_x p - elem_x e)),
                        elem_y := elem_y e + 3 * sin (atan2 (player_y p - elem_y e) (player_x p - elem_x e))\<rparr>
               \<and> sqrt ((elem_x e' - elem_x e)\<^sup>2 + (elem_y e' - elem_y e)\<^sup>2) = 3
               \<and> (0 < sqrt ((player_x p - elem_x e)\<^sup>2 + (player_y p - elem_y e)\<^sup>2) \<longrightarrow>
                    elem_x e' = elem_x e + 3 * ((player_x p - elem_x e)
                                  / sqrt ((player_x p - elem_x e)\<^sup>2 + (player_y p - elem_y e)\<^sup>2))
                  \<and> elem_y e' = elem_y e + 3 * ((player_y p - elem_y e)
                                  / sqrt ((player_x p - elem_x e)\<^sup>2 + (player_y p - elem_y e)\<^sup>2)))))"
proof -
  define dx where "dx = player_x p - elem_x e"
  define dy where "dy = player_y p - elem_y e"
  have dir: "0 < sqrt (dx\<^sup>2 + dy\<^sup>2) \<Longrightarrow>
      cos (atan2 dy dx) = dx / sqrt (dx\<^sup>2 + dy\<^sup>2) \<and> sin (atan2 dy dx) = dy / sqrt (dx\<^sup>2 + dy\<^sup>2)"
  proof -
    assume "0 < sqrt (dx\<^sup>2 + dy\<^sup>2)"
    then have "dx \<noteq> 0 \<or> dy \<noteq> 0" by auto
    then show ?thesis by (simp add: cos_atan2 sin_atan2)
  qed
  show ?thesis
    using assms dir step_length [of 3 "atan2 dy dx"]
    unfolding dx_def dy_def
    by (simp add: ChasingEnemy_update_def Let_def game_over_lose_def)
qed

theorem chasing_update_witness:
  "ChasingEnemy_update \<lparr>elem_x = 200, elem_y = 200, enemy_size = 20, color = ''blue''\<rparr>
       (place_player 205 205 (arena 800 600))
     = (\<lparr>elem_x = 200, elem_y = 200, enemy_size = 20, color = ''blue''\<rparr>,
        game_over_lose (place_player 205 205 (arena 800 600)))
   \<and> game_over (game_over_lose (place_player 205 205 (arena 800 600))) = [Lose]
   \<and> ChasingEnemy_update \<lparr>elem_x = 200, elem_y = 200, enemy_size = 20, color = ''blue''\<rparr>
       (place_player 500 200 (arena 800 600))
     = (\<lparr>elem_x = 203, elem_y = 200, enemy_size = 20, color = ''blue''\<rparr>,
        place_player 500 200 (arena 800 600))"
proof -
  have near: "sqrt 50 < 20"
    by (rule real_less_lsqrt) simp_all
  have far: "\<not> sqrt (300\<^sup>2) < 20"
    by simp
  show ?thesis
    using near far
      chasing_update [of "place_player 205 205 (arena 800 600)"
          "\<lparr>speed = 5, turtle = \<lparr>xcor = 205, ycor = 205, heading = 0\<rparr>\<rparr>"
          "\<lparr>elem_x = 200, elem_y = 200, enemy_size = 20, color = ''blue''\<rparr>"]
      chasing_update [of "place_player 500 200 (arena 800 600)"
          "\<lparr>speed = 5, turtle = \<lparr>xcor = 500, ycor = 200, heading = 0\<rparr>\<rparr>"
          "\<lparr>elem_x = 200, elem_y = 200, enemy_size = 20, color = ''blue''\<rparr>"]
    by (simp add: arena_eq place_player_def setx_def sety_def player_x_def player_y_def
        atan2_east)
qed

subsection \<open>RandomEnemy.update and FrontGateEnermy.update\<close>

text \<open>
  C7: in every RandomEnemy.update without a hit (and with the game's player in place),
  the enemy moves 3 units along its stored angle, which the constructor sets to the
  literal 45 (radians); the angle then becomes \<open>\<pi> - angle\<close> if the new x is outside
  \<open>[0, screen_width]\<close>, and is negated, after that reflection if it took place, if the
  new y is outside \<open>[0, screen_height]\<close>, so both can apply in one tick. In particular an
  enemy with angle 0 at x = screen\_width + 1, with y on the screen, has angle \<open>\<pi>\<close>
  after the update.
\<close>

theorem random_update:
  fixes e :: RandomEnemy
  assumes "player g = Some p" and "\<not> hits_player e p"
  defines "e' \<equiv> fst (RandomEnemy_update e g)"
  shows "snd (RandomEnemy_update e g) = g
       \<and> elem_x e' = elem_x e + 3 * cos (angle e)
       \<and> elem_y e' = elem_y e + 3 * sin (angle e)
       \<and> sqrt ((elem_x e' - elem_x e)\<^sup>2 + (elem_y e' - elem_y e)\<^sup>2) = 3
       \<and> enemy_size e' = enemy_size e \<and> color e' = color e
       \<and> angle e' =
           (if elem_x e' < 0 \<or> real_of_int (screen_width g) < elem_x e'
            then (if elem_y e' < 0 \<or> real_of_int (screen_height g) < elem_y e'
                  then - (pi - angle e) else pi - angle e)
            else (if elem_y e' < 0 \<or> real_of_int (screen_height g) < elem_y e'
                  then - angle e else angle e))
       \<and> (\<exists>r. RandomEnemy_init ge sz c = Inr r \<and> angle r = 45)
       \<and> (angle e = 0 \<and> elem_x e = real_of_int (screen_width g) + 1
            \<and> 0 \<le> elem_y e \<and> elem_y e \<le> real_of_int (screen_height g)
            \<longrightarrow> angle e' = pi)"
  using assms(1,2) step_length [of 3 "angle e"] unfolding e'_def
  by (simp add: RandomEnemy_update_def Let_def RandomEnemy_init_def Enemy_init_def)

theorem random_update_witness:
  "\<not> hits_player \<lparr>elem_x = 801, elem_y = 100, enemy_size = 20, color = ''red'', angle = 0\<rparr>
        \<lparr>speed = 5, turtle = \<lparr>xcor = 50, ycor = 300, heading = 0\<rparr>\<rparr>
   \<and> elem_x (fst (RandomEnemy_update
        \<lparr>elem_x = 801, elem_y = 100, enemy_size = 20, color = ''red'', angle = 0\<rparr> (arena 800 600))) = 804
   \<and> angle (fst (RandomEnemy_update
        \<lparr>elem_x = 801, elem_y = 100, enemy_size = 20, color = ''red'', angle = 0\<rparr> (arena 800 600))) = pi"
proof -
  have nohit: "\<not> hits_player \<lparr>elem_x = 801, elem_y = 100, enemy_size = 20, color = ''red'', angle = 0\<rparr>
        \<lparr>speed = 5, turtle = \<lparr>xcor = 50, ycor = 300, heading = 0\<rparr>\<rparr>"
    by (simp add: hits_player_def player_x_def player_y_def)
  have pl: "player (arena 800 600) = Some \<lparr>speed = 5, turtle = \<lparr>xcor = 50, ycor = 300, heading = 0\<rparr>\<rparr>"
    by (simp add: arena_eq)
  have sc: "screen_width (arena 800 600) = 800" "screen_height (arena 800 600) = 600"
    by (simp_all add: arena_eq)
  show ?thesis
    using nohit random_update [OF pl nohit, of origin 20 "''red''"]
    by (simp add: sc)
qed

text \<open>
  C9, amended: in every FrontGateEnermy.update without a hit, the enemy moves 3 units
  along its stored angle; then the angle becomes \<open>\<pi> - angle\<close> exactly when
  x < screen\_width - screen\_width // 4 or x > screen\_width, and is negated exactly when
  y < screen\_height // 3 or y > screen\_height - screen\_height // 3, where // is the floor
  division of the integer screen dimensions; the position is never clamped.
\<close>

theorem front_gate_update:
  fixes e :: FrontGateEnermy
  assumes "player g = Some p" and "\<not> hits_player e p"
  defines "e' \<equiv> fst (FrontGateEnermy_update e g)"
  shows "snd (FrontGateEnermy_update e g) = g
       \<and> elem_x e' = elem_x e + 3 * cos (gate_angle e)
       \<and> elem_y e' = elem_y e + 3 * sin (gate_angle e)
       \<and> sqrt ((elem_x e' - elem_x e)\<^sup>2 + (elem_y e' - elem_y e)\<^sup>2) = 3
       \<and> enemy_size e' = enemy_size e \<and> color e' = color e
       \<and> gate_angle e' =
           (if elem_x e' < real_of_int (screen_width g - screen_width g div 4)
               \<or> real_of_int (screen_width g) < elem_x e'
            then (if elem_y e' < real_of_int (screen_height g div 3)
                     \<or> real_of_int (screen_height g - screen_height g div 3) < elem_y e'
                  then - (pi - gate_angle e) else pi - gate_angle e)
            else (if elem_y e' < real_of_int (screen_height g div 3)
                     \<or> real_of_int (screen_height g - screen_height g div 3) < elem_y e'
                  then - gate_angle e else gate_angle e))"
  using assms(1,2) step_length [of 3 "gate_angle e"] unfolding e'_def
  by (simp add: FrontGateEnermy_update_def Let_def)

theorem front_gate_update_witness:
  "\<not> hits_player \<lparr>elem_x = 700, elem_y = 166, enemy_size = 20, color = ''pink'', gate_angle = pi\<rparr>
        \<lparr>speed = 5, turtle = \<lparr>xcor = 50, ycor = 300, heading = 0\<rparr>\<rparr>
   \<and> elem_x (fst (FrontGateEnermy_update
        \<lparr>elem_x = 700, elem_y = 166, enemy_size = 20, color = ''pink'', gate_angle = pi\<rparr>
        (arena 800 600))) = 697
   \<and> gate_angle (fst (FrontGateEnermy_update
        \<lparr>elem_x = 700, elem_y = 166, enemy_size = 20, color = ''pink'', gate_angle = pi\<rparr>
        (arena 800 600))) = - pi"
proof -
  have nohit: "\<not> hits_player \<lparr>elem_x = 700, elem_y = 166, enemy_size = 20, color = ''pink'', gate_angle = pi\<rparr>
        \<lparr>speed = 5, turtle = \<lparr>xcor = 50, ycor = 300, heading = 0\<rparr>\<rparr>"
    by (simp add: hits_player_def player_x_def player_y_def)
  have pl: "player (arena 800 600) = Some \<lparr>speed = 5, turtle = \<lparr>xcor = 50, ycor = 300, heading = 0\<rparr>\<rparr>"
    by (simp add: arena_eq)
  have sc: "screen_width (arena 800 600) = 800" "screen_height (arena 800 600) = 600"
    by (simp_all add: arena_eq)
  show ?thesis
    using nohit front_gate_update [OF pl nohit]
    by (simp add: sc)
qed

text \<open>
  C9 as stated, with the exact quotients screen\_width/4 and screen\_height/3: on a screen
  of height 500 an enemy that arrives at y = 166.5 is below 500/3, so its angle \<open>\<pi>\<close>
  would be negated; the source compares with 500 // 3 = 166 and keeps the angle.
\<close>

theorem front_gate_floor_division:
  "\<not> hits_player \<lparr>elem_x = 700, elem_y = 333 / 2, enemy_size = 20, color = ''pink'', gate_angle = pi\<rparr>
        \<lparr>speed = 5, turtle = \<lparr>xcor = 50, ycor = 250, heading = 0\<rparr>\<rparr>
   \<and> player (arena 800 500) = Some \<lparr>speed = 5, turtle = \<lparr>xcor = 50, ycor = 250, heading = 0\<rparr>\<rparr>
   \<and> FrontGateEnermy_update
        \<lparr>elem_x = 700, elem_y = 333 / 2, enemy_size = 20, color = ''pink'', gate_angle = pi\<rparr>
        (arena 800 500)
      = (\<lparr>elem_x = 697, elem_y = 333 / 2, enemy_size = 20, color = ''pink'', gate_angle = pi\<rparr>,
         arena 800 500)
   \<and> (333 / 2 :: real) < real_of_int (screen_height (arena 800 500)) / 3
   \<and> gate_angle (fst (FrontGateEnermy_update
        \<lparr>elem_x = 700, elem_y = 333 / 2, enemy_size = 20, color = ''pink'', gate_angle = pi\<rparr>
        (arena 800 500))) \<noteq> - pi"
  by (simp add: arena_eq FrontGateEnermy_update_def hits_player_def player_x_def player_y_def)

subsection \<open>FencingEnemy\<close>

lemma patrol_eq:
  "patrol s px py =
     \<lparr>elem_x = px, elem_y = py, enemy_size = 20, color = ''orange'', step = s,
      home_x = 700, home_y = 300, side_length = 100,
      home_corner = ((650, 250), (750, 250), (750, 350), (650, 350))\<rparr>"
  by (simp add: patrol_def FencingEnemy_init_def Enemy_init_def arena_eq origin_def Let_def)

lemma fencing_move_inv: "fencing_inv h e \<Longrightarrow> fencing_inv h (fencing_move e)"
  by (auto simp: fencing_inv_def fencing_move_def Let_def)

text \<open>
  C8: the constructor of FencingEnemy sets the phase \<open>step\<close> to 0 and computes the four
  patrol corners once, as the home's position offset by plus or minus 50 on each axis;
  every update keeps the phase in \<open>{0, 1, 2, 3}\<close> and the corners as they are. In an
  update without a hit, phase 0 moves x by +2 and goes on to phase 1 once x has reached
  the right edge, phase 1 moves y by +2 until the bottom edge, phase 2 moves x by -2 until
  the left edge, phase 3 moves y by -2 until the top edge and then wraps to phase 0.
\<close>

theorem fencing_patrol:
  fixes e :: FencingEnemy and g :: Game
  defines "e' \<equiv> fst (FencingEnemy_update e g)"
  shows "(\<exists>e0. FencingEnemy_init h ge sz c = Inr e0 \<and> step e0 = 0 \<and> fencing_inv h e0)
       \<and> (fencing_inv h e \<longrightarrow> fencing_inv h e')
       \<and> (fencing_inv h e \<and> player g = Some p \<and> \<not> hits_player e p \<longrightarrow>
            snd (FencingEnemy_update e g) = g
            \<and> (step e = 0 \<longrightarrow> elem_x e' = elem_x e + 2 \<and> elem_y e' = elem_y e
                  \<and> step e' = (if elem_x h + 50 \<le> elem_x e' then 1 else 0))
            \<and> (step e = 1 \<longrightarrow> elem_x e' = elem_x e \<and> elem_y e' = elem_y e + 2
                  \<and> step e' = (if elem_y h + 50 \<le> elem_y e' then 2 else 1))
            \<and> (step e = 2 \<longrightarrow> elem_x e' = elem_x e - 2 \<and> elem_y e' = elem_y e
                  \<and> step e' = (if elem_x e' \<le> elem_x h - 50 then 3 else 2))
            \<and> (step e = 3 \<longrightarrow> elem_x e' = elem_x e \<and> elem_y e' = elem_y e - 2
                  \<and> step e' = (if elem_y e' \<le> elem_y h - 50 then 0 else 3)))"
proof -
  have init: "\<exists>e0. FencingEnemy_init h ge sz c = Inr e0 \<and> step e0 = 0 \<and> fencing_inv h e0"
    by (simp add: FencingEnemy_init_def Enemy_init_def Let_def fencing_inv_def)
  have inv: "fencing_inv h e \<longrightarrow> fencing_inv h e'"
    unfolding e'_def
    by (auto simp: FencingEnemy_update_def fencing_move_inv split: option.splits)
  have phases: "fencing_inv h e \<and> player g = Some p \<and> \<not> hits_player e p \<longrightarrow>
            snd (FencingEnemy_update e g) = g
            \<and> (step e = 0 \<longrightarrow> elem_x e' = elem_x e + 2 \<and> elem_y e' = elem_y e
                  \<and> step e' = (if elem_x h + 50 \<le> elem_x e' then 1 else 0))
            \<and> (step e = 1 \<longrightarrow> elem_x e' = elem_x e \<and> elem_y e' = elem_y e + 2
                  \<and> step e' = (if elem_y h + 50 \<le> elem_y e' then 2 else 1))
            \<and> (step e = 2 \<longrightarrow> elem_x e' = elem_x e - 2 \<and> elem_y e' = elem_y e
                  \<and> step e' = (if elem_x e' \<le> elem_x h - 50 then 3 else 2))
            \<and> (step e = 3 \<longrightarrow> elem_x e' = elem_x e \<and> elem_y e' = elem_y e - 2
                  \<and> step e' = (if elem_y e' \<le> elem_y h - 50 then 0 else 3))"
    unfolding e'_def
    by (simp add: FencingEnemy_update_def fencing_move_def fencing_inv_def Let_def
        corner0_def corner1_def corner2_def corner3_def)
  from init inv phases show ?thesis by blast
qed

theorem fencing_patrol_witness:
  "fencing_inv (home (arena 800 600)) (patrol 0 749 250)
   \<and> \<not> hits_player (patrol 0 749 250) \<lparr>speed = 5, turtle = \<lparr>xcor = 50, ycor = 300, heading = 0\<rparr>\<rparr>
   \<and> elem_x (fst (FencingEnemy_update (patrol 0 749 250) (arena 800 600))) = 751
   \<and> step (fst (FencingEnemy_update (patrol 0 749 250) (arena 800 600))) = 1
   \<and> elem_y (fst (FencingEnemy_update (patrol 1 750 300) (arena 800 600))) = 302
   \<and> step (fst (FencingEnemy_update (patrol 1 750 300) (arena 800 600))) = 1
   \<and> elem_x (fst (FencingEnemy_update (patrol 2 651 350) (arena 800 600))) = 649
   \<and> step (fst (FencingEnemy_update (patrol 2 651 350) (arena 800 600))) = 3
   \<and> elem_y (fst (FencingEnemy_update (patrol 3 650 251) (arena 800 600))) = 249
   \<and> step (fst (FencingEnemy_update (patrol 3 650 251) (arena 800 600))) = 0"
proof -
  let ?p = "\<lparr>speed = 5, turtle = \<lparr>xcor = 50, ycor = 300, heading = 0\<rparr>\<rparr>"
  let ?h = "home (arena 800 600)"
  have pl: "player (arena 800 600) = Some ?p"
    by (simp add: arena_eq)
  have h: "elem_x ?h = 700" "elem_y ?h = 300"
    by (simp_all add: arena_eq)
  have inv: "fencing_inv ?h (patrol 0 749 250)" "fencing_inv ?h (patrol 1 750 300)"
      "fencing_inv ?h (patrol 2 651 350)" "fencing_inv ?h (patrol 3 650 251)"
    by (simp_all add: fencing_inv_def patrol_eq arena_eq)
  have nohit: "\<not> hits_player (patrol 0 749 250) ?p" "\<not> hits_player (patrol 1 750 300) ?p"
      "\<not> hits_player (patrol 2 651 350) ?p" "\<not> hits_player (patrol 3 650 251) ?p"
    by (simp_all add: hits_player_def patrol_eq player_x_def player_y_def)
  have st: "step (patrol 0 749 250) = 0" "step (patrol 1 750 300) = 1"
      "step (patrol 2 651 350) = 2" "step (patrol 3 650 251) = 3"
      "elem_x (patrol 0 749 250) = 749" "elem_y (patrol 1 750 300) = 300"
      "elem_x (patrol 2 651 350) = 651" "elem_y (patrol 3 650 251) = 251"
    by (simp_all add: patrol_eq)
  show ?thesis
    using inv nohit pl
      fencing_patrol [of ?h origin 20 "''orange''" "patrol 0 749 250" "arena 800 600" ?p]
      fencing_patrol [of ?h origin 20 "''orange''" "patrol 1 750 300" "arena 800 600" ?p]
      fencing_patrol [of ?h origin 20 "''orange''" "patrol 2 651 350" "arena 800 600" ?p]
      fencing_patrol [of ?h origin 20 "''orange''" "patrol 3 650 251" "arena 800 600" ?p]
    by (simp add: st h)
qed

subsection \<open>The enemies list\<close>

lemma enemies_Player_update: "enemies (Player_update p g) = enemies g"
  by (simp add: Player_update_def Let_def game_over_win_def)

lemma enemies_update_enemy: "enemies (snd (update_enemy en g)) = enemies g"
  by (cases en)
     (simp_all add: update_enemy_def ChasingEnemy_update_def FencingEnemy_update_def
        RandomEnemy_update_def FrontGateEnermy_update_def game_over_lose_def Let_def
        split: option.splits prod.splits)

lemma enemies_update_element: "enemies (update_element i g) = enemies g"
proof (cases "i < length (elements g)")
  case False
  then show ?thesis by (simp add: update_element_def)
next
  case True
  show ?thesis
  proof (cases "elements g ! i")
    case (EnemyE en)
    obtain en' g' where u: "update_enemy en g = (en', g')"
      by (cases "update_enemy en g")
    then have "enemies g' = enemies g"
      using enemies_update_enemy [of en g] by simp
    with True EnemyE u show ?thesis
      by (simp add: update_element_def)
  qed (use True in \<open>simp_all add: update_element_def Player_tick_def enemies_Player_update
         split: option.splits\<close>)
qed

lemma create_enemy_spawns:
  "create_enemy ge g =
     Inr (g\<lparr>elements := elements g @
        [EnemyE (Random \<lparr>elem_x = 100, elem_y = 100, enemy_size = 20, color = ''red'', angle = 45\<rparr>),
         EnemyE (Chasing \<lparr>elem_x = 200, elem_y = 200, enemy_size = 20, color = ''blue''\<rparr>),
         EnemyE (Fencing
           \<lparr>elem_x = real_of_int (gen_screen_width (enemy_generator g) - 150),
            elem_y = real_of_int (gen_screen_height (enemy_generator g) div 2 - 50),
            enemy_size = 20, color = ''orange'', step = 0,
            home_x = elem_x (home g), home_y = elem_y (home g), side_length = 100,
            home_corner = ((elem_x (home g) - 50, elem_y (home g) - 50),
                           (elem_x (home g) + 50, elem_y (home g) - 50),
                           (elem_x (home g) + 50, elem_y (home g) + 50),
                           (elem_x (home g) - 50, elem_y (home g) + 50))\<rparr>),
         EnemyE (FrontGate
           \<lparr>elem_x = real_of_int (gen_screen_width (enemy_generator g) - 100),
            elem_y = real_of_int (gen_screen_height (enemy_generator g) div 2),
            enemy_size = 20, color = ''pink'', gate_angle = 45\<rparr>)]\<rparr>)"
  by (simp add: create_enemy_def RandomEnemy_init_def ChasingEnemy_init_def FencingEnemy_init_def
      FrontGateEnermy_init_def Enemy_init_def Let_def add_element_def)

lemma create_enemy_eq:
  "\<exists>r c f q. create_enemy ge g =
     Inr (g\<lparr>elements := elements g @ [EnemyE (Random r), EnemyE (Chasing c),
                                       EnemyE (Fencing f), EnemyE (FrontGate q)]\<rparr>)"
  using create_enemy_spawns [of ge g] by blast

lemma enemies_fire: "fire ge ev g = Inr g' \<Longrightarrow> enemies g' = enemies g"
proof (cases ev)
  case (Click px py)
  assume "fire ge ev g = Inr g'"
  with Click show ?thesis by (auto simp: click_def)
next
  case (Update i)
  assume "fire ge ev g = Inr g'"
  with Update show ?thesis by (auto simp: enemies_update_element)
next
  case Spawn
  assume "fire ge ev g = Inr g'"
  with Spawn create_enemy_eq [of ge g] show ?thesis by auto
qed

lemma enemies_init_game: "init_game ge t sw sh lvl = Inr g \<Longrightarrow> enemies g = []"
  by (auto simp: init_game_def Player_init_def Let_def add_element_def)

text \<open>
  C10: \<^verbatim>\<open>create_enemy\<close> registers its four new enemies through \<^verbatim>\<open>add_element\<close>
  only, which leaves the \<^verbatim>\<open>enemies\<close> list alone; \<^verbatim>\<open>add_enemy\<close>, the one function
  that appends to the list, is called nowhere, so in every reachable state
  \<^verbatim>\<open>enemies\<close> is the empty list it was initialised to.
\<close>

theorem enemies_never_appended:
  "(reachable ge t sw sh lvl g \<longrightarrow> enemies g = [])
   \<and> (\<exists>r c f q. create_enemy ge g =
         Inr (add_element (EnemyE (FrontGate q)) (add_element (EnemyE (Fencing f))
               (add_element (EnemyE (Chasing c)) (add_element (EnemyE (Random r)) g))))
         \<and> enemies (projr (create_enemy ge g)) = enemies g)
   \<and> enemies (add_element el g) = enemies g
   \<and> enemies (add_enemy en g) = enemies g @ [en]"
proof -
  have "enemies g = []" if "reachable ge t sw sh lvl g"
    using that
  proof (induction rule: reachable.induct)
    case (start g)
    then show ?case by (rule enemies_init_game)
  next
    case (step g ev g')
    then show ?case by (simp add: enemies_fire)
  qed
  moreover have "\<exists>r c f q. create_enemy ge g =
         Inr (add_element (EnemyE (FrontGate q)) (add_element (EnemyE (Fencing f))
               (add_element (EnemyE (Chasing c)) (add_element (EnemyE (Random r)) g))))
         \<and> enemies (projr (create_enemy ge g)) = enemies g"
    by (simp add: create_enemy_spawns add_element_def) blast
  moreover have "enemies (add_element el g) = enemies g"
    by (simp add: add_element_def)
  moreover have "enemies (add_enemy en g) = enemies g @ [en]"
    by (simp add: add_enemy_def add_element_def)
  ultimately show ?thesis
    by blast
qed

lemma init_game_arena: "init_game origin new_turtle sw sh 1 = Inr (arena sw sh)"
  by (simp add: arena_def init_game_def Player_init_def)

theorem enemies_never_appended_witness:
  "reachable origin new_turtle 800 600 1 (projr (create_enemy origin (arena 800 600)))
   \<and> length (elements (projr (create_enemy origin (arena 800 600)))) = 7
   \<and> enemies (projr (create_enemy origin (arena 800 600))) = []"
proof -
  have "reachable origin new_turtle 800 600 1 (arena 800 600)"
    by (rule reachable.start) (rule init_game_arena)
  moreover have "fire origin Spawn (arena 800 600) = Inr (projr (create_enemy origin (arena 800 600)))"
    by (simp add: create_enemy_spawns)
  ultimately have r: "reachable origin new_turtle 800 600 1 (projr (create_enemy origin (arena 800 600)))"
    by (rule reachable.step)
  have "length (elements (projr (create_enemy origin (arena 800 600)))) = 7"
    by (simp add: create_enemy_spawns arena_eq)
  with r show ?thesis
    using enemies_never_appended [of origin new_turtle 800 600 1
        "projr (create_enemy origin (arena 800 600))"]
    by simp
qed

end
